theory Spec2Isabelle
  imports Complex_Main "HOL-Library.Word" "HOL-Library.Sublist"
begin

section \<open>Library functions used by the size parser\<close>

text \<open>
  \<open>StringToSize\<close> calls three functions of the Go standard library: \<open>strings.Split\<close>,
  \<open>strconv.Atoi\<close> and \<open>strconv.ParseFloat\<close>. The first two are embedded here after the
  library's implementation (base 10, 64-bit \<open>int\<close>); \<open>ParseFloat\<close> is taken as a
  parameter of the parser. Strings are byte sequences, as Go's \<open>len\<close> and slicing
  count them.
\<close>

datatype NumError = ErrSyntax | ErrRange

text \<open>
  A \<open>float64\<close> is read only through the comparison \<open>> 0\<close>; the model keeps the
  finite values as reals and the three special values apart.
\<close>

datatype float64 = Finite real | PosInf | NegInf | NaN

fun gt_zero :: "float64 \<Rightarrow> bool" where
  "gt_zero (Finite r) = (0 < r)"
| "gt_zero PosInf = True"
| "gt_zero NegInf = False"
| "gt_zero NaN = False"

text \<open>\<open>strings.Split(s, ",")\<close> for a one-byte separator: never an empty result.\<close>

fun Split :: "string \<Rightarrow> char \<Rightarrow> string list" where
  "Split [] sep = [[]]"
| "Split (c # cs) sep =
     (if c = sep then [] # Split cs sep
      else (case Split cs sep of
              [] \<Rightarrow> [[c]]
            | t # ts \<Rightarrow> (c # t) # ts))"

text \<open>
  \<open>strconv.ParseUint(s, 10, 64)\<close>: the digit loop with the library's two overflow
  checks, on 64-bit words.
\<close>

definition digitVal :: "char \<Rightarrow> nat option" where
  "digitVal d =
     (let b = (of_char d :: nat) in
      if 48 \<le> b \<and> b \<le> 57 then Some (b - 48)
      else if 97 \<le> b \<and> b \<le> 122 then Some (b - 97 + 10)
      else if 65 \<le> b \<and> b \<le> 90 then Some (b - 65 + 10)
      else None)"

definition maxUint64 :: "64 word" where
  "maxUint64 = 18446744073709551615"

definition cutoff10 :: "64 word" where
  "cutoff10 = maxUint64 div 10 + 1"

fun ParseUint_loop :: "64 word \<Rightarrow> string \<Rightarrow> 64 word \<times> NumError option" where
  "ParseUint_loop n [] = (n, None)"
| "ParseUint_loop n (d # ds) =
     (case digitVal d of
        None \<Rightarrow> (0, Some ErrSyntax)
      | Some v \<Rightarrow>
          if v \<ge> 10 then (0, Some ErrSyntax)
          else if n \<ge> cutoff10 then (maxUint64, Some ErrRange)
          else
            (let n' = n * 10; n1 = n' + of_nat v
             in if n1 < n' \<or> n1 > maxUint64 then (maxUint64, Some ErrRange)
                else ParseUint_loop n1 ds))"

definition ParseUint :: "string \<Rightarrow> 64 word \<times> NumError option" where
  "ParseUint s = (if length s < 1 then (0, Some ErrSyntax) else ParseUint_loop 0 s)"

text \<open>
  \<open>strconv.ParseInt(s, 10, 64)\<close>: sign, magnitude, and the saturation of a value out
  of range to the largest magnitude of its sign.
\<close>

definition ParseInt :: "string \<Rightarrow> 64 word \<times> NumError option" where
  "ParseInt s =
     (if length s = 0 then (0, Some ErrSyntax)
      else
        (let neg = (hd s = CHR ''-'');
             s' = (if hd s = CHR ''+'' \<or> hd s = CHR ''-'' then tl s else s);
             (un, err) = ParseUint s';
             cutoff = (push_bit 63 1 :: 64 word)
         in if err \<noteq> None \<and> err \<noteq> Some ErrRange then (0, err)
            else if \<not> neg \<and> un \<ge> cutoff then (cutoff - 1, Some ErrRange)
            else if neg \<and> un > cutoff then (- cutoff, Some ErrRange)
            else (if neg then - un else un, None)))"

text \<open>\<open>strconv.Atoi\<close>: \<open>ParseInt(s, 10, 0)\<close> converted to \<open>int\<close>.\<close>

definition Atoi :: "string \<Rightarrow> int \<times> NumError option" where
  "Atoi s = (let (i64, err) = ParseInt s in (sint i64, err))"


section \<open>Size\<close>

type_synonym SizeType = int

definition STNone :: SizeType where "STNone = 0"
definition STFull :: SizeType where "STFull = 1"
definition STScaleToWidth :: SizeType where "STScaleToWidth = 2"
definition STScaleToHeight :: SizeType where "STScaleToHeight = 3"
definition STScalePercent :: SizeType where "STScalePercent = 4"
definition STExact :: SizeType where "STExact = 5"
definition STBestFit :: SizeType where "STBestFit = 6"

record Size =
  Type :: SizeType
  Percent :: float64
  W :: int
  H :: int

text \<open>The zero value of the struct with the given tag: \<open>Size{Type: t}\<close>.\<close>

definition Size_of :: "SizeType \<Rightarrow> Size" where
  "Size_of t = \<lparr>Type = t, Percent = Finite 0, W = 0, H = 0\<rparr>"

datatype panic = SliceBoundsOutOfRange | IndexOutOfRange

text \<open>
  \<open>StringToSize\<close>. The slice \<open>p[0:1]\<close> panics on the empty string and the index
  \<open>vals[1]\<close> panics when the text has no comma; both are results of the model. The
  errors of \<open>Atoi\<close> and \<open>ParseFloat\<close> are dropped, their values kept.
\<close>

definition StringToSize ::
  "(string \<Rightarrow> float64 \<times> NumError option) \<Rightarrow> string \<Rightarrow> panic + Size" where
  "StringToSize ParseFloat p =
     (if p = ''full'' then Inr (Size_of STFull)
      else
        (let s = Size_of STNone in
         if length p > 4 \<and> take 4 p = ''pct:''
         then Inr (s\<lparr>Type := STScalePercent, Percent := fst (ParseFloat (drop 4 p))\<rparr>)
         else if length p < 1 then Inl SliceBoundsOutOfRange
         else
           (let bang = (take 1 p = ''!'');
                s = (if bang then s\<lparr>Type := STBestFit\<rparr> else s);
                p = (if bang then drop 1 p else p);
                vals = Split p (CHR '','')
            in if length vals < 2 then Inl IndexOutOfRange
               else
                 (let s = s\<lparr>W := fst (Atoi (vals ! 0)), H := fst (Atoi (vals ! 1))\<rparr>
                  in if Type s = STNone
                     then (if vals ! 0 = '''' then Inr (s\<lparr>Type := STScaleToHeight\<rparr>)
                           else if vals ! 1 = '''' then Inr (s\<lparr>Type := STScaleToWidth\<rparr>)
                           else Inr (s\<lparr>Type := STExact\<rparr>))
                     else Inr s))))"

definition Valid :: "Size \<Rightarrow> bool" where
  "Valid s =
     (if Type s = STFull then True
      else if Type s = STScaleToWidth then W s > 0
      else if Type s = STScaleToHeight then H s > 0
      else if Type s = STScalePercent then gt_zero (Percent s)
      else if Type s = STExact \<or> Type s = STBestFit then W s > 0 \<and> H s > 0
      else False)"

text \<open>
  A stand-in for \<open>strconv.ParseFloat\<close>, used where a statement is instantiated at a
  concrete parser: it reads the numeral 50 and reports a syntax error, with value 0,
  for every other text.
\<close>

definition sampleParseFloat :: "string \<Rightarrow> float64 \<times> NumError option" where
  "sampleParseFloat s =
     (if s = ''50'' then (Finite 50, None) else (Finite 0, Some ErrSyntax))"

section \<open>The IIIF handler (package main)\<close>

subsection \<open>The response writer\<close>

text \<open>
  A response as the client receives it: the status line once it has gone out, the
  header fields sent with it, and the body. As with \<open>http.ResponseWriter\<close>, the first
  \<open>WriteHeader\<close> fixes the status, a \<open>Write\<close> before any \<open>WriteHeader\<close> sends 200
  first, and a header field set after the status has gone out is not sent.
\<close>

record Response =
  status :: "nat option"
  header :: "string \<Rightarrow> string option"
  body :: string

definition Header_Set :: "string \<Rightarrow> string \<Rightarrow> 'a Response_scheme \<Rightarrow> 'a Response_scheme" where
  "Header_Set k v w = (if status w = None then w\<lparr>header := (header w)(k \<mapsto> v)\<rparr> else w)"

definition WriteHeader :: "nat \<Rightarrow> 'a Response_scheme \<Rightarrow> 'a Response_scheme" where
  "WriteHeader code w = (if status w = None then w\<lparr>status := Some code\<rparr> else w)"

definition Write :: "string \<Rightarrow> 'a Response_scheme \<Rightarrow> 'a Response_scheme" where
  "Write b w = (let w = WriteHeader 200 w in w\<lparr>body := body w @ b\<rparr>)"

text \<open>\<open>http.Error\<close>, \<open>http.NotFound\<close> and \<open>http.Redirect\<close> of net/http.\<close>

definition http_Error :: "string \<Rightarrow> nat \<Rightarrow> 'a Response_scheme \<Rightarrow> 'a Response_scheme" where
  "http_Error msg code w =
     (let w = Header_Set ''Content-Type'' ''text/plain; charset=utf-8'' w;
          w = Header_Set ''X-Content-Type-Options'' ''nosniff'' w;
          w = WriteHeader code w
      in Write (msg @ [CHR 0x0A]) w)"



text \<open>
  What a collaborator that is handed the writer does with it: a sequence of header
  settings, status lines and body writes.
\<close>

datatype WOp = SetHeader string string | WriteStatus nat | WriteBytes string

fun runOp :: "WOp \<Rightarrow> 'a Response_scheme \<Rightarrow> 'a Response_scheme" where
  "runOp (SetHeader k v) w = Header_Set k v w"
| "runOp (WriteStatus code) w = WriteHeader code w"
| "runOp (WriteBytes b) w = Write b w"

definition runOps :: "WOp list \<Rightarrow> 'a Response_scheme \<Rightarrow> 'a Response_scheme" where
  "runOps ops w = fold runOp ops w"

text \<open>
  The calls that reach the file system, the parser, the feature set and the codecs
  are recorded, in order, next to the response.
\<close>

datatype Call =
    CallReadFile string
  | CallNewImageResource string string
  | CallNewURL string
  | CallSendHeaders
  | CallSupported
  | CallApply
  | CallEncodeImage

record Served = Response +
  calls :: "Call list"

definition newResponse :: Served where
  "newResponse = \<lparr>status = None, header = (\<lambda>k. None), body = [], calls = []\<rparr>"

definition logCall :: "Call \<Rightarrow> Served \<Rightarrow> Served" where
  "logCall c w = w\<lparr>calls := calls w @ [c]\<rparr>"

subsection \<open>Data of the handler\<close>

datatype error = ErrImageDoesNotExist | ErrOther string

record Request =
  RequestURI :: string
  Header :: "string \<Rightarrow> string list"

record URL =
  Path :: string
  URL_String :: string

text \<open>A \<open>TileSize\<close> is the pair of its \<open>Width\<close> and its \<open>ScaleFactors\<close>.\<close>

type_synonym TileSize = "int \<times> int list"

record FeatureSet =
  RegionByPx :: bool
  RegionByPct :: bool
  SizeByWhListed :: bool
  SizeByW :: bool
  SizeByH :: bool
  SizeByPct :: bool
  SizeByWh :: bool
  SizeByForcedWh :: bool
  SizeAboveFull :: bool
  RotationBy90s :: bool
  RotationArbitrary :: bool
  Mirroring :: bool
  Default :: bool
  Color :: bool
  Gray :: bool
  Bitonal :: bool
  Jpg :: bool
  Png :: bool
  Gif :: bool
  Tif :: bool
  Jp2 :: bool
  Pdf :: bool
  Webp :: bool
  BaseUriRedirect :: bool
  Cors :: bool
  JsonldMediaType :: bool
  ProfileLinkHeader :: bool
  CanonicalLinkHeader :: bool
  TileSizes :: "TileSize list"

text \<open>
  The compiled patterns of the handler are kept as their matching functions:
  \<open>BaseRegex\<close> gives the first submatch of \<open>FindStringSubmatch\<close> (\<open>None\<close> when the
  pattern does not match), the other two give \<open>MatchString\<close>.
\<close>

record IIIFHandler =
  Base :: URL
  BaseRegex :: "string \<Rightarrow> string option"
  BaseOnlyRegex :: "string \<Rightarrow> bool"
  FeatureSet :: FeatureSet
  InfoPathRegex :: "string \<Rightarrow> bool"
  TilePath :: string

record ImageResource =
  resID :: string
  FilePath :: string
  GetWidth :: int
  GetHeight :: int

text \<open>
  The descriptor that \<open>FeatureSet.Info\<close> returns and \<open>buildInfoJSON\<close> completes:
  the three fields the handler assigns, and the rest of the document as \<open>'f\<close>.
\<close>

record 'f IIIFInfo =
  ID :: string
  Width :: int
  Height :: int
  Profile :: 'f

text \<open>
  The functions the handler calls that are defined outside the handler's file: the
  methods of \<open>iiif.ID\<close>, \<open>iiif.URL\<close> (type \<open>'u\<close>) and \<open>iiif.FeatureSet\<close>,
  \<open>NewImageResource\<close>, \<open>ImageResource.Apply\<close> (its image has type \<open>'i\<close>),
  \<open>sendHeaders\<close>, \<open>EncodeImage\<close>, and \<open>ioutil.ReadFile\<close>, \<open>json.Marshal\<close>,
  \<open>mime.TypeByExtension\<close> and \<open>error.Error\<close> of the standard library. The two that
  are handed the response writer return what they do with it.
\<close>

record ('u, 'i, 'f) Env =
  ID_Path :: "string \<Rightarrow> string"
  ID_String :: "string \<Rightarrow> string"
  NewImageResource :: "string \<Rightarrow> string \<Rightarrow> error + ImageResource"
  ReadFile :: "string \<Rightarrow> error + string"
  NewURL :: "string \<Rightarrow> 'u"
  URL_Valid :: "'u \<Rightarrow> bool"
  Format :: "'u \<Rightarrow> string"
  Supported :: "FeatureSet \<Rightarrow> 'u \<Rightarrow> bool"
  FeatureSet_Info :: "FeatureSet \<Rightarrow> 'f IIIFInfo"
  Marshal :: "'f IIIFInfo \<Rightarrow> error + string"
  sendHeaders :: "Request \<Rightarrow> string \<Rightarrow> WOp list \<times> error option"
  Apply :: "ImageResource \<Rightarrow> 'u \<Rightarrow> error + 'i"
  EncodeImage :: "'i \<Rightarrow> string \<Rightarrow> WOp list \<times> error option"
  TypeByExtension :: "string \<Rightarrow> string"
  Error :: "error \<Rightarrow> string"

subsection \<open>Construction of the handler\<close>






subsection \<open>The handler\<close>


definition newImageResError ::
  "('u, 'i, 'f) Env \<Rightarrow> error \<Rightarrow> 'a Response_scheme \<Rightarrow> 'a Response_scheme" where
  "newImageResError env err w =
     (case err of
        ErrImageDoesNotExist \<Rightarrow> http_Error ''Image resource does not exist'' 404 w
      | _ \<Rightarrow> http_Error (Error env err) 500 w)"







subsection \<open>A sample deployment\<close>














section \<open>Properties of the size parser\<close>

lemmas SizeType_defs =
  STNone_def STFull_def STScaleToWidth_def STScaleToHeight_def
  STScalePercent_def STExact_def STBestFit_def

lemma Split_nonempty: "Split s sep \<noteq> []"
  by (induction s) (auto split: list.splits)

lemma Split_no_sep: "sep \<notin> set s \<Longrightarrow> Split s sep = [s]"
  by (induction s) auto

lemma Split_append_sep:
  "sep \<notin> set w \<Longrightarrow> Split (w @ sep # r) sep = w # Split r sep"
  by (induction w) auto

lemma Split_pair:
  "sep \<notin> set w \<Longrightarrow> sep \<notin> set h \<Longrightarrow> Split (w @ sep # h) sep = [w, h]"
  by (simp add: Split_append_sep Split_no_sep)

lemma Split_length_iff: "(length (Split s sep) < 2) = (sep \<notin> set s)"
  by (induction s) (auto split: list.splits simp: Split_nonempty)

lemma Atoi_150: "Atoi ''150'' = (150, None)"
  by code_simp

lemma Atoi_75: "Atoi ''75'' = (75, None)"
  by code_simp

lemma Atoi_empty: "Atoi '''' = (0, Some ErrSyntax)"
  by code_simp

lemma Atoi_big: "Atoi ''99999999999999999999'' = (9223372036854775807, Some ErrRange)"
  by code_simp

lemma Atoi_syntax_zero: "snd (Atoi s) = Some ErrSyntax \<Longrightarrow> fst (Atoi s) = 0"
  by (auto simp: Atoi_def ParseInt_def Let_def split: prod.splits if_splits)

lemma take4_pair:
  assumes "CHR '','' \<notin> set w" and "take 4 w \<noteq> ''pct:''"
  shows "take 4 (w @ CHR '','' # h) \<noteq> ''pct:''"
proof
  assume eq: "take 4 (w @ CHR '','' # h) = ''pct:''"
  show False
  proof (cases "length w < 4")
    case True
    then have "(take 4 (w @ CHR '','' # h)) ! length w = CHR '',''"
      by (simp add: nth_append)
    moreover have "length w < length (take 4 (w @ CHR '','' # h))"
      using True by simp
    ultimately have "CHR '','' \<in> set (take 4 (w @ CHR '','' # h))"
      by (metis nth_mem)
    with eq show False by simp
  next
    case False
    then have "take 4 (w @ CHR '','' # h) = take 4 w" by simp
    with eq assms(2) show False by simp
  qed
qed

lemma StringToSize_pct:
  "length p > 4 \<Longrightarrow> take 4 p = ''pct:'' \<Longrightarrow>
   StringToSize pf p = Inr \<lparr>Type = STScalePercent, Percent = fst (pf (drop 4 p)), W = 0, H = 0\<rparr>"
  by (auto simp: StringToSize_def Size_of_def)

lemma StringToSize_bang_pair:
  assumes "CHR '','' \<notin> set w" "CHR '','' \<notin> set h"
  shows "StringToSize pf (CHR ''!'' # w @ CHR '','' # h) =
         Inr \<lparr>Type = STBestFit, Percent = Finite 0, W = fst (Atoi w), H = fst (Atoi h)\<rparr>"
  using assms
  by (simp add: StringToSize_def Size_of_def Split_pair SizeType_defs Let_def)

lemma StringToSize_pair:
  assumes "CHR '','' \<notin> set w" "CHR '','' \<notin> set h" "take 1 w \<noteq> ''!''" "take 4 w \<noteq> ''pct:''"
  shows "StringToSize pf (w @ CHR '','' # h) =
         Inr \<lparr>Type = (if w = '''' then STScaleToHeight else if h = '''' then STScaleToWidth else STExact),
              Percent = Finite 0, W = fst (Atoi w), H = fst (Atoi h)\<rparr>"
proof -
  have a: "take 4 (w @ CHR '','' # h) \<noteq> ''pct:''" using assms take4_pair by blast
  have b: "w @ CHR '','' # h \<noteq> ''full''"
  proof
    assume "w @ CHR '','' # h = ''full''"
    then have "CHR '','' \<in> set ''full''" by (metis in_set_conv_decomp)
    then show False by simp
  qed
  have c: "take 1 (w @ CHR '','' # h) \<noteq> ''!''"
    using assms(3) by (cases w) auto
  show ?thesis
    using a b c assms(1,2)
    by (simp add: StringToSize_def Size_of_def Split_pair SizeType_defs Let_def)
qed


lemma StringToSize_comma:
  assumes "\<not> (length p > 4 \<and> take 4 p = ''pct:'')" and "CHR '','' \<in> set p"
    and "vals = Split (if take 1 p = ''!'' then drop 1 p else p) (CHR '','')"
  shows "StringToSize pf p =
           Inr \<lparr>Type = (if take 1 p = ''!'' then STBestFit
                       else if vals ! 0 = '''' then STScaleToHeight
                       else if vals ! 1 = '''' then STScaleToWidth else STExact),
                Percent = Finite 0, W = fst (Atoi (vals ! 0)), H = fst (Atoi (vals ! 1))\<rparr>"
proof -
  have nf: "p \<noteq> ''full''" using assms(2) by auto
  have ne: "\<not> length p < 1" using assms(2) by (cases p) auto
  have "CHR '','' \<in> set (if take 1 p = ''!'' then drop 1 p else p)"
    using assms(2) by (cases p) auto
  then have len: "\<not> length vals < 2" using assms(3) by (simp add: Split_length_iff)
  show ?thesis
  proof (cases "take 1 p = ''!''")
    case True
    then show ?thesis
      using assms(1) nf ne len unfolding assms(3)
      by (simp add: StringToSize_def Size_of_def Let_def SizeType_defs)
  next
    case False
    then show ?thesis
      using assms(1) nf ne len unfolding assms(3)
      by (simp add: StringToSize_def Size_of_def Let_def SizeType_defs)
  qed
qed

lemma Atoi_abc: "Atoi ''abc'' = (0, Some ErrSyntax)"
  by code_simp

text \<open>
  C1. The parsing contract of \<open>StringToSize\<close>: the text \<open>full\<close> gives the tag
  \<open>STFull\<close>; a text longer than four bytes that starts with \<open>pct:\<close> gives
  \<open>STScalePercent\<close> with \<open>Percent\<close> the value \<open>ParseFloat\<close> returns for the rest;
  a leading \<open>!\<close> before a pair \<open>w,h\<close> gives \<open>STBestFit\<close> with the pair parsed after the
  \<open>!\<close> is removed; a pair \<open>w,h\<close> (not starting with \<open>!\<close> or \<open>pct:\<close>) gives
  \<open>STScaleToHeight\<close> when \<open>w\<close> is empty, \<open>STScaleToWidth\<close> when \<open>h\<close> is empty and
  \<open>STExact\<close> when both are present. The five examples of the specification follow.
\<close>

theorem StringToSize_contract:
  "StringToSize pf ''full'' = Inr \<lparr>Type = STFull, Percent = Finite 0, W = 0, H = 0\<rparr>
   \<and> (length p > 4 \<and> take 4 p = ''pct:'' \<longrightarrow>
        StringToSize pf p =
          Inr \<lparr>Type = STScalePercent, Percent = fst (pf (drop 4 p)), W = 0, H = 0\<rparr>)
   \<and> (CHR '','' \<notin> set w \<and> CHR '','' \<notin> set h \<longrightarrow>
        StringToSize pf (''!'' @ w @ '','' @ h) =
          Inr \<lparr>Type = STBestFit, Percent = Finite 0, W = fst (Atoi w), H = fst (Atoi h)\<rparr>)
   \<and> (CHR '','' \<notin> set w \<and> CHR '','' \<notin> set h \<and> take 1 w \<noteq> ''!'' \<and> take 4 w \<noteq> ''pct:'' \<longrightarrow>
        StringToSize pf (w @ '','' @ h) =
          Inr \<lparr>Type = (if w = '''' then STScaleToHeight
                      else if h = '''' then STScaleToWidth else STExact),
               Percent = Finite 0, W = fst (Atoi w), H = fst (Atoi h)\<rparr>)
   \<and> (fst (pf ''50'') = Finite 50 \<longrightarrow>
        StringToSize pf ''pct:50'' =
          Inr \<lparr>Type = STScalePercent, Percent = Finite 50, W = 0, H = 0\<rparr>)
   \<and> StringToSize pf ''150,'' =
        Inr \<lparr>Type = STScaleToWidth, Percent = Finite 0, W = 150, H = 0\<rparr>
   \<and> StringToSize pf '',150'' =
        Inr \<lparr>Type = STScaleToHeight, Percent = Finite 0, W = 0, H = 150\<rparr>
   \<and> StringToSize pf ''150,75'' =
        Inr \<lparr>Type = STExact, Percent = Finite 0, W = 150, H = 75\<rparr>
   \<and> StringToSize pf ''!150,75'' =
        Inr \<lparr>Type = STBestFit, Percent = Finite 0, W = 150, H = 75\<rparr>"
proof -
  have full: "StringToSize pf ''full'' = Inr \<lparr>Type = STFull, Percent = Finite 0, W = 0, H = 0\<rparr>"
    by (simp add: StringToSize_def Size_of_def)
  have pct50: "fst (pf ''50'') = Finite 50 \<Longrightarrow>
      StringToSize pf ''pct:50'' = Inr \<lparr>Type = STScalePercent, Percent = Finite 50, W = 0, H = 0\<rparr>"
    using StringToSize_pct [of "''pct:50''" pf] by simp
  have e1: "StringToSize pf ''150,'' =
      Inr \<lparr>Type = STScaleToWidth, Percent = Finite 0, W = 150, H = 0\<rparr>"
    using StringToSize_pair [of "''150''" "''''" pf] by (simp add: Atoi_150 Atoi_empty)
  have e2: "StringToSize pf '',150'' =
      Inr \<lparr>Type = STScaleToHeight, Percent = Finite 0, W = 0, H = 150\<rparr>"
    using StringToSize_pair [of "''''" "''150''" pf] by (simp add: Atoi_150 Atoi_empty)
  have e3: "StringToSize pf ''150,75'' =
      Inr \<lparr>Type = STExact, Percent = Finite 0, W = 150, H = 75\<rparr>"
    using StringToSize_pair [of "''150''" "''75''" pf] by (simp add: Atoi_150 Atoi_75)
  have e4: "StringToSize pf ''!150,75'' =
      Inr \<lparr>Type = STBestFit, Percent = Finite 0, W = 150, H = 75\<rparr>"
    using StringToSize_bang_pair [of "''150''" "''75''" pf] by (simp add: Atoi_150 Atoi_75)
  show ?thesis
    using full pct50 e1 e2 e3 e4
    by (simp add: StringToSize_pct StringToSize_bang_pair StringToSize_pair)
qed

theorem StringToSize_contract_witness:
  "length ''pct:50'' > 4 \<and> take 4 ''pct:50'' = ''pct:''
   \<and> StringToSize sampleParseFloat ''pct:50'' =
        Inr \<lparr>Type = STScalePercent, Percent = Finite 50, W = 0, H = 0\<rparr>
   \<and> CHR '','' \<notin> set ''200'' \<and> CHR '','' \<notin> set ''''
   \<and> take 1 ''200'' \<noteq> ''!'' \<and> take 4 ''200'' \<noteq> ''pct:''
   \<and> StringToSize sampleParseFloat ''!200,'' =
        Inr \<lparr>Type = STBestFit, Percent = Finite 0, W = fst (Atoi ''200''), H = fst (Atoi '''')\<rparr>
   \<and> StringToSize sampleParseFloat ''200,'' =
        Inr \<lparr>Type = STScaleToWidth, Percent = Finite 0, W = fst (Atoi ''200''), H = fst (Atoi '''')\<rparr>"
  using StringToSize_contract [of sampleParseFloat "''pct:50''" "''200''" "''''"]
  by (simp add: sampleParseFloat_def)

text \<open>
  C2. \<open>Valid\<close> is exactly the invariant per tag: true for \<open>STFull\<close>; for
  \<open>STScaleToWidth\<close> iff \<open>W > 0\<close>; for \<open>STScaleToHeight\<close> iff \<open>H > 0\<close>; for
  \<open>STScalePercent\<close> iff \<open>Percent > 0\<close>; for \<open>STExact\<close> and \<open>STBestFit\<close> iff both
  \<open>W > 0\<close> and \<open>H > 0\<close>; false for every other tag, \<open>STNone\<close> among them. It is false
  for \<open>ScaleToWidth{0}\<close>, \<open>ScalePercent{0}\<close> and \<open>Exact{150,0}\<close>.
\<close>

theorem Valid_per_tag:
  "Valid s =
     (Type s = STFull
      \<or> (Type s = STScaleToWidth \<and> W s > 0)
      \<or> (Type s = STScaleToHeight \<and> H s > 0)
      \<or> (Type s = STScalePercent \<and> gt_zero (Percent s))
      \<or> ((Type s = STExact \<or> Type s = STBestFit) \<and> W s > 0 \<and> H s > 0))
   \<and> Valid \<lparr>Type = STFull, Percent = pc, W = w, H = h\<rparr>
   \<and> \<not> Valid \<lparr>Type = STNone, Percent = pc, W = w, H = h\<rparr>
   \<and> \<not> Valid \<lparr>Type = STScaleToWidth, Percent = Finite 0, W = 0, H = 0\<rparr>
   \<and> \<not> Valid \<lparr>Type = STScalePercent, Percent = Finite 0, W = 0, H = 0\<rparr>
   \<and> \<not> Valid \<lparr>Type = STExact, Percent = Finite 0, W = 150, H = 0\<rparr>"
  by (simp add: Valid_def SizeType_defs)

text \<open>
  C3. \<open>StringToSize\<close> does not return a \<open>Size\<close> for every string: on the empty string
  the slice \<open>p[0:1]\<close> is out of bounds, and on \<open>150\<close>, which has no comma,
  \<open>vals[1]\<close> is out of range. Both calls panic.
\<close>

theorem StringToSize_panics:
  "StringToSize pf '''' = Inl SliceBoundsOutOfRange
   \<and> StringToSize pf ''150'' = Inl IndexOutOfRange"
  by (simp add: StringToSize_def Size_of_def)

text \<open>
  C9, as stated, fails: a width token of twenty nines is not an integer \<open>Atoi\<close> can
  parse (it reports a range error), yet the value it returns with the error is the
  largest \<open>int\<close>, \<open>StringToSize\<close> stores it, and \<open>Valid\<close> accepts the result.
\<close>

theorem malformed_number_accepted:
  "snd (Atoi ''99999999999999999999'') = Some ErrRange
   \<and> StringToSize sampleParseFloat ''99999999999999999999,'' =
       Inr \<lparr>Type = STScaleToWidth, Percent = Finite 0, W = 9223372036854775807, H = 0\<rparr>
   \<and> Valid \<lparr>Type = STScaleToWidth, Percent = Finite 0, W = 9223372036854775807, H = 0\<rparr>"
proof -
  have "StringToSize sampleParseFloat (''99999999999999999999'' @ CHR '','' # '''') =
        Inr \<lparr>Type = (if ''99999999999999999999'' = '''' then STScaleToHeight
                    else if '''' = '''' then STScaleToWidth else STExact),
             Percent = Finite 0, W = fst (Atoi ''99999999999999999999''), H = fst (Atoi '''')\<rparr>"
    using StringToSize_pair [of "''99999999999999999999''" "''''" sampleParseFloat] by simp
  then show ?thesis
    by (simp add: Atoi_big Atoi_empty Valid_def SizeType_defs)
qed

text \<open>
  C9, amended. A malformed number leaves its field at zero and the size invalid when
  the library returns zero with the error, which \<open>Atoi\<close> does for every syntax error:
  for a text \<open>pct:\<close> plus a payload on which \<open>ParseFloat\<close> reports an error and
  returns 0, \<open>Percent\<close> is 0 and \<open>Valid\<close> is false; for a text with a comma (outside
  the \<open>pct:\<close> branch) whose width token, or height token, is not empty and is a syntax
  error for \<open>Atoi\<close>, that field is 0 and \<open>Valid\<close> is false.
\<close>

theorem syntax_error_invalid:
  "(length p > 4 \<and> take 4 p = ''pct:'' \<and> snd (pf (drop 4 p)) \<noteq> None
      \<and> fst (pf (drop 4 p)) = Finite 0 \<longrightarrow>
      (\<exists>s. StringToSize pf p = Inr s \<and> Percent s = Finite 0 \<and> \<not> Valid s))
   \<and> (\<not> (length p > 4 \<and> take 4 p = ''pct:'') \<and> CHR '','' \<in> set p
       \<and> vals = Split (if take 1 p = ''!'' then drop 1 p else p) (CHR '','')
       \<and> vals ! 0 \<noteq> '''' \<and> snd (Atoi (vals ! 0)) = Some ErrSyntax \<longrightarrow>
      (\<exists>s. StringToSize pf p = Inr s \<and> W s = 0 \<and> \<not> Valid s))
   \<and> (\<not> (length p > 4 \<and> take 4 p = ''pct:'') \<and> CHR '','' \<in> set p
       \<and> vals = Split (if take 1 p = ''!'' then drop 1 p else p) (CHR '','')
       \<and> vals ! 1 \<noteq> '''' \<and> snd (Atoi (vals ! 1)) = Some ErrSyntax \<longrightarrow>
      (\<exists>s. StringToSize pf p = Inr s \<and> H s = 0 \<and> \<not> Valid s))"
proof (intro conjI impI)
  assume "length p > 4 \<and> take 4 p = ''pct:'' \<and> snd (pf (drop 4 p)) \<noteq> None
      \<and> fst (pf (drop 4 p)) = Finite 0"
  then show "\<exists>s. StringToSize pf p = Inr s \<and> Percent s = Finite 0 \<and> \<not> Valid s"
    by (simp add: StringToSize_pct Valid_def SizeType_defs)
next
  assume a: "\<not> (length p > 4 \<and> take 4 p = ''pct:'') \<and> CHR '','' \<in> set p
       \<and> vals = Split (if take 1 p = ''!'' then drop 1 p else p) (CHR '','')
       \<and> vals ! 0 \<noteq> '''' \<and> snd (Atoi (vals ! 0)) = Some ErrSyntax"
  then have z: "fst (Atoi (vals ! 0)) = 0" using Atoi_syntax_zero by blast
  have ne0: "vals ! 0 \<noteq> []" using a by blast
  have "StringToSize pf p =
           Inr \<lparr>Type = (if take 1 p = ''!'' then STBestFit
                       else if vals ! 0 = '''' then STScaleToHeight
                       else if vals ! 1 = '''' then STScaleToWidth else STExact),
                Percent = Finite 0, W = fst (Atoi (vals ! 0)), H = fst (Atoi (vals ! 1))\<rparr>"
    using a by (intro StringToSize_comma) blast+
  then show "\<exists>s. StringToSize pf p = Inr s \<and> W s = 0 \<and> \<not> Valid s"
    using z ne0 by (simp add: Valid_def SizeType_defs)
next
  assume a: "\<not> (length p > 4 \<and> take 4 p = ''pct:'') \<and> CHR '','' \<in> set p
       \<and> vals = Split (if take 1 p = ''!'' then drop 1 p else p) (CHR '','')
       \<and> vals ! 1 \<noteq> '''' \<and> snd (Atoi (vals ! 1)) = Some ErrSyntax"
  then have z: "fst (Atoi (vals ! 1)) = 0" using Atoi_syntax_zero by blast
  have ne1: "vals ! 1 \<noteq> []" using a by blast
  have "StringToSize pf p =
           Inr \<lparr>Type = (if take 1 p = ''!'' then STBestFit
                       else if vals ! 0 = '''' then STScaleToHeight
                       else if vals ! 1 = '''' then STScaleToWidth else STExact),
                Percent = Finite 0, W = fst (Atoi (vals ! 0)), H = fst (Atoi (vals ! 1))\<rparr>"
    using a by (intro StringToSize_comma) blast+
  then show "\<exists>s. StringToSize pf p = Inr s \<and> H s = 0 \<and> \<not> Valid s"
    using z ne1 by (simp add: Valid_def SizeType_defs)
qed

theorem syntax_error_invalid_witness:
  "(length ''pct:abc'' > 4 \<and> take 4 ''pct:abc'' = ''pct:''
      \<and> snd (sampleParseFloat (drop 4 ''pct:abc'')) \<noteq> None
      \<and> fst (sampleParseFloat (drop 4 ''pct:abc'')) = Finite 0)
   \<and> (\<exists>s. StringToSize sampleParseFloat ''pct:abc'' = Inr s
          \<and> Percent s = Finite 0 \<and> \<not> Valid s)
   \<and> (\<not> (length ''abc,abc'' > 4 \<and> take 4 ''abc,abc'' = ''pct:'')
       \<and> CHR '','' \<in> set ''abc,abc''
       \<and> [''abc'', ''abc''] =
           Split (if take 1 ''abc,abc'' = ''!'' then drop 1 ''abc,abc'' else ''abc,abc'')
             (CHR '','')
       \<and> [''abc'', ''abc''] ! 0 \<noteq> ''''
       \<and> snd (Atoi ([''abc'', ''abc''] ! 0)) = Some ErrSyntax
       \<and> [''abc'', ''abc''] ! 1 \<noteq> ''''
       \<and> snd (Atoi ([''abc'', ''abc''] ! 1)) = Some ErrSyntax)
   \<and> (\<exists>s. StringToSize sampleParseFloat ''abc,abc'' = Inr s \<and> W s = 0 \<and> \<not> Valid s)
   \<and> (\<exists>s. StringToSize sampleParseFloat ''abc,abc'' = Inr s \<and> H s = 0 \<and> \<not> Valid s)"
  using syntax_error_invalid [of "''pct:abc''" sampleParseFloat "[]"]
        syntax_error_invalid [of "''abc,abc''" sampleParseFloat "[''abc'', ''abc'']"]
  by (simp add: sampleParseFloat_def Atoi_abc)


section \<open>Properties of the handler\<close>

subsection \<open>The response writer\<close>


lemma status_Header_Set [simp]: "status (Header_Set k v w) = status w"
  by (simp add: Header_Set_def)

lemma calls_Header_Set [simp]: "calls (Header_Set k v w) = calls w"
  by (simp add: Header_Set_def)

lemma body_Header_Set [simp]: "body (Header_Set k v w) = body w"
  by (simp add: Header_Set_def)


lemma calls_WriteHeader [simp]: "calls (WriteHeader code w) = calls w"
  by (simp add: WriteHeader_def)

lemma calls_Write [simp]: "calls (Write b w) = calls w"
  by (simp add: Write_def Let_def)



lemma header_Write [simp]: "header (Write b w) = header w"
  by (simp add: Write_def Let_def WriteHeader_def)



lemma calls_http_Error [simp]: "calls (http_Error msg code w) = calls w"
  by (simp add: http_Error_def Let_def)

lemma status_logCall [simp]: "status (logCall c w) = status w"
  by (simp add: logCall_def)

lemma header_logCall [simp]: "header (logCall c w) = header w"
  by (simp add: logCall_def)

lemma body_logCall [simp]: "body (logCall c w) = body w"
  by (simp add: logCall_def)

lemma calls_logCall [simp]: "calls (logCall c w) = calls w @ [c]"
  by (simp add: logCall_def)

lemma calls_runOp [simp]: "calls (runOp op w) = calls w"
  by (cases op) simp_all

lemma calls_runOps [simp]: "calls (runOps ops w) = calls w"
  unfolding runOps_def by (induction ops arbitrary: w) simp_all




lemma status_newResponse [simp]: "status newResponse = None"
  by (simp add: newResponse_def)

lemma calls_newResponse [simp]: "calls newResponse = []"
  by (simp add: newResponse_def)

lemma body_newResponse [simp]: "body newResponse = []"
  by (simp add: newResponse_def)


lemma calls_newImageResError [simp]: "calls (newImageResError env err w) = calls w"
  by (cases err) (simp_all add: newImageResError_def)

subsection \<open>The base path\<close>








subsection \<open>The descriptor\<close>



















subsection \<open>Commands\<close>






























end
